theory Spec2Isabelle
  imports Complex_Main
begin

section \<open>The Julia-set pipeline launch description\<close>

text \<open>
  A shallow embedding of \<^verbatim>\<open>juliaset-pipeline-launch.py\<close>: the module constants, the
  function \<^verbatim>\<open>build_profile_name\<close> and the function \<^verbatim>\<open>launch_setup\<close>, which builds the
  two component containers (pipeline and composite) from the resolved launch arguments.
\<close>

subsection \<open>Python values and string formatting\<close>

text \<open>
  Parameter values are booleans, strings, integers and floats. A float is modelled by the
  real number its literal denotes; \<^verbatim>\<open>float(n)\<close> of an integer is the same number.
\<close>

datatype pvalue = PBool bool | PStr string | PInt int | PFloat real

type_synonym py_dict = "(string \<times> pvalue) list"

datatype error = KeyError string

definition py_float :: "int \<Rightarrow> real" where
  "py_float n = of_int n"

text \<open>\<^verbatim>\<open>int(x)\<close> of a float truncates towards zero.\<close>

definition py_int :: "real \<Rightarrow> int" where
  "py_int x = (if 0 \<le> x then \<lfloor>x\<rfloor> else \<lceil>x\<rceil>)"

text \<open>
  \<^verbatim>\<open>'%d' % i\<close> and the f-string rendering of an integer: the decimal digits, most
  significant first, after a minus sign when the number is negative.
\<close>

definition digit :: "nat \<Rightarrow> char" where
  "digit d = ''0123456789'' ! (d mod 10)"

fun dec_digits :: "nat \<Rightarrow> string" where
  "dec_digits n =
     (if n < 10 then [digit n] else dec_digits (n div 10) @ [digit (n mod 10)])"

declare dec_digits.simps [simp del]

definition fmt_d :: "int \<Rightarrow> string" where
  "fmt_d i = (if i < 0 then CHR ''-'' # dec_digits (nat (- i)) else dec_digits (nat i))"

subsection \<open>Module constants\<close>

definition RESOLUTIONS :: "string \<rightharpoonup> int \<times> int" where
  "RESOLUTIONS = map_of
     [(''16K'', (15360, 8640)),
      (''8K'', (7680, 4320)),
      (''4K'', (3840, 2160)),
      (''1080p'', (1920, 1080)),
      (''720p'', (1280, 720)),
      (''480p'', (852, 480))]"

definition IMAGE_HZ :: real where
  "IMAGE_HZ = 100.0"

definition MAX_ITERATION :: int where
  "MAX_ITERATION = 50"

text \<open>
  The chain length is the module constant \<^verbatim>\<open>MAX_ITERATION\<close>. Every definition below that
  reads it takes it as the argument \<open>N\<close>, so that a property can be stated for every chain
  length; the shipped program is the instance \<open>N = MAX_ITERATION\<close>.
\<close>

definition JULIASET_PARAMS :: "int \<Rightarrow> py_dict list" where
  "JULIASET_PARAMS N =
     [[(''min_x_range'', PFloat (- 2.5))],
      [(''max_x_range'', PFloat 2.5)],
      [(''min_y_range'', PFloat (- 1.5))],
      [(''max_y_range'', PFloat 1.5)],
      [(''start_x'', PFloat 0.7885)],
      [(''start_y'', PFloat 0.7885)],
      [(''boundary_radius'', PFloat 25.0)],
      [(''max_iterations'', PFloat (py_float N))]]"

subsection \<open>Node and container descriptions\<close>

record ComposableNode =
  package :: string
  plugin :: string
  name :: string
  parameters :: "py_dict list"
  remappings :: "(string \<times> string) list"
  extra_arguments :: "py_dict list option"

text \<open>
  Modelled from the spec: the launch library's condition \<^verbatim>\<open>LaunchConfigurationEquals\<close> is
  not part of the repository. The spec describes the activation predicate as an equality
  test of the named launch configuration against the expected value.
\<close>

datatype condition = LaunchConfigurationEquals string string

record ComposableNodeContainer =
  container_name :: string
  namespace :: string
  container_package :: string
  executable :: string
  composable_node_descriptions :: "ComposableNode list"
  prefix :: string
  sigkill_timeout :: string
  sigterm_timeout :: string
  output_mode :: string
  condition :: condition

text \<open>
  The launch arguments after resolution by the launch library: \<^verbatim>\<open>perform\<close> yields the
  string of an argument and \<^verbatim>\<open>IfCondition(...).evaluate\<close> its truth value.
\<close>

record launch_context =
  config :: string
  resolution :: string
  enable_mt :: bool
  enable_nsys :: bool
  nsys_profile_label :: string
  nsys_profile_flags :: string

text \<open>
  Modelled from the spec: looking up a string-valued launch configuration by its name, and
  the evaluation of a condition as the equality test the spec describes.
\<close>

definition launch_configuration :: "launch_context \<Rightarrow> string \<rightharpoonup> string" where
  "launch_configuration ctx =
     [''config'' \<mapsto> config ctx,
      ''resolution'' \<mapsto> resolution ctx,
      ''nsys_profile_label'' \<mapsto> nsys_profile_label ctx,
      ''nsys_profile_flags'' \<mapsto> nsys_profile_flags ctx]"

fun evaluate :: "launch_context \<Rightarrow> condition \<Rightarrow> bool" where
  "evaluate ctx (LaunchConfigurationEquals key expected) =
     (launch_configuration ctx key = Some expected)"

subsection \<open>The profile name\<close>

text \<open>
  \<^verbatim>\<open>platform.machine()\<close> is the host's architecture string; it is the argument
  \<open>machine\<close>. A label is false in a condition exactly when it is the empty string.
\<close>

definition build_profile_name :: "string \<Rightarrow> string \<Rightarrow> string \<Rightarrow> bool \<Rightarrow> string \<Rightarrow> string" where
  "build_profile_name machine label cfg mt res =
     ''ros-type_adapt-'' @ machine @ (if \<not> mt then '''' else ''-mt'') @ ''-'' @ cfg
       @ ''-'' @ res @ ''-'' @ fmt_d (py_int IMAGE_HZ) @ ''hz''
       @ (if \<not> (label \<noteq> '''') then '''' else ''-'' @ label)"

subsection \<open>The nodes\<close>

definition cam2image_node :: "int \<times> int \<Rightarrow> ComposableNode" where
  "cam2image_node wh =
     \<lparr>package = ''image_tools'',
      plugin = ''image_tools::Cam2Image'',
      name = ''cam2image'',
      parameters = [[(''burger_mode'', PBool True),
                     (''history'', PStr ''keep_last''),
                     (''frequency'', PFloat IMAGE_HZ),
                     (''width'', PInt (fst wh)),
                     (''height'', PInt (snd wh))]],
      remappings = [(''/image'', ''/image_in'')],
      extra_arguments = Some [[(''use_intra_process_comms'', PBool True)]]\<rparr>"

definition composite_node :: "int \<Rightarrow> ComposableNode" where
  "composite_node N =
     \<lparr>package = ''julia_set_example'',
      plugin = ''type_adapt_example::JuliasetNode'',
      name = ''juliaset_node'',
      parameters = [[(''is_composite'', PBool True)]] @ JULIASET_PARAMS N,
      remappings = [(''/image_out'', ''/composite/image_out'')],
      extra_arguments = None\<rparr>"

definition map_node :: "int \<Rightarrow> ComposableNode" where
  "map_node N =
     \<lparr>package = ''julia_set_example'',
      plugin = ''type_adapt_example::MapNode'',
      name = ''map_node'',
      parameters = JULIASET_PARAMS N,
      remappings = [(''/image_out'', ''/image_out0'')],
      extra_arguments = None\<rparr>"

definition juliaset_node :: "int \<Rightarrow> int \<Rightarrow> ComposableNode" where
  "juliaset_node N i =
     \<lparr>package = ''julia_set_example'',
      plugin = ''type_adapt_example::JuliasetNode'',
      name = ''juliaset_node'' @ fmt_d i,
      parameters = [[(''is_composite'', PBool False)], [(''proc_id'', PInt i)]]
                     @ JULIASET_PARAMS N,
      remappings = [(''/image_in'', ''/image_out'' @ fmt_d (i - 1)),
                    (''/image_out'', ''/image_out'' @ fmt_d i)],
      extra_arguments = None\<rparr>"

definition colorize_node :: "int \<Rightarrow> ComposableNode" where
  "colorize_node N =
     \<lparr>package = ''julia_set_example'',
      plugin = ''type_adapt_example::ColorizeNode'',
      name = ''colorize_node'',
      parameters = [[(''max_iterations'', PFloat (py_float N))]] @ JULIASET_PARAMS N,
      remappings = [(''/image_in'', ''/image_out'' @ fmt_d (N - 1)),
                    (''/image_out'', ''/pipeline/image_out'')],
      extra_arguments = None\<rparr>"

text \<open>
  The pipeline list starts as \<^verbatim>\<open>[cam2image_node]\<close>, gets the mapping node, then one
  node for each \<open>i\<close> of \<^verbatim>\<open>range(1, MAX_ITERATION)\<close> in the loop, then the colorizing node.
\<close>

definition pipeline_nodes :: "int \<Rightarrow> ComposableNode \<Rightarrow> ComposableNode list" where
  "pipeline_nodes N cam =
     fold (\<lambda>i nodes. nodes @ [juliaset_node N i]) [1..N - 1] ([cam] @ [map_node N])
       @ [colorize_node N]"

subsection \<open>The containers and \<^verbatim>\<open>launch_setup\<close>\<close>

definition container_prefix :: "string \<Rightarrow> launch_context \<Rightarrow> string" where
  "container_prefix machine ctx =
     (if enable_nsys ctx
      then ''nsys profile '' @ nsys_profile_flags ctx @ '' -o ''
             @ build_profile_name machine (nsys_profile_label ctx) (config ctx)
                 (enable_mt ctx) (resolution ctx)
      else '''')"

definition composite_container ::
    "int \<Rightarrow> string \<Rightarrow> launch_context \<Rightarrow> ComposableNode \<Rightarrow> ComposableNodeContainer" where
  "composite_container N machine ctx cam =
     \<lparr>container_name = ''container'',
      namespace = '''',
      container_package = ''rclcpp_components'',
      executable = ''component_container'' @ (if enable_mt ctx then ''_mt'' else ''''),
      composable_node_descriptions = [cam, composite_node N],
      prefix = container_prefix machine ctx,
      sigkill_timeout = (if enable_nsys ctx then ''500'' else ''5''),
      sigterm_timeout = (if enable_nsys ctx then ''500'' else ''5''),
      output_mode = ''both'',
      condition = LaunchConfigurationEquals ''config'' ''composite''\<rparr>"

definition pipeline_container ::
    "int \<Rightarrow> string \<Rightarrow> launch_context \<Rightarrow> ComposableNode \<Rightarrow> ComposableNodeContainer" where
  "pipeline_container N machine ctx cam =
     \<lparr>container_name = ''pipeline_container'',
      namespace = '''',
      container_package = ''rclcpp_components'',
      executable = ''component_container'' @ (if enable_mt ctx then ''_mt'' else ''''),
      composable_node_descriptions = pipeline_nodes N cam,
      prefix = container_prefix machine ctx,
      sigkill_timeout = (if enable_nsys ctx then ''500'' else ''5''),
      sigterm_timeout = (if enable_nsys ctx then ''500'' else ''5''),
      output_mode = ''both'',
      condition = LaunchConfigurationEquals ''config'' ''pipeline''\<rparr>"

text \<open>
  \<^verbatim>\<open>launch_setup\<close> returns the pipeline container and the composite container, in this
  order. The subscript \<^verbatim>\<open>RESOLUTIONS[resolution]\<close> raises \<^verbatim>\<open>KeyError\<close> for a key that is
  not in the table; nothing before it can fail.
\<close>

definition launch_setup ::
    "int \<Rightarrow> string \<Rightarrow> launch_context \<Rightarrow> error + ComposableNodeContainer list" where
  "launch_setup N machine ctx =
     (case RESOLUTIONS (resolution ctx) of
        None \<Rightarrow> Inl (KeyError (resolution ctx))
      | Some wh \<Rightarrow>
          Inr [pipeline_container N machine ctx (cam2image_node wh),
               composite_container N machine ctx (cam2image_node wh)])"

subsection \<open>Parameter overrides\<close>


subsection \<open>Data routes and default arguments\<close>

text \<open>
  A remapping \<open>(logical, physical)\<close> routes a node's logical channel to a physical
  channel. A node reads from the physical channel of its \<^verbatim>\<open>/image_in\<close> remapping; every
  other remapping of these nodes names a channel the node writes to.
\<close>

definition output_routes :: "ComposableNode \<Rightarrow> string list" where
  "output_routes n = map snd (filter (\<lambda>r. fst r \<noteq> ''/image_in'') (remappings n))"

definition routes :: "ComposableNode \<Rightarrow> string set" where
  "routes n = snd ` set (remappings n)"

text \<open>The default values that \<^verbatim>\<open>launch_args\<close> declares, resolved.\<close>

definition default_context :: launch_context where
  "default_context =
     \<lparr>config = ''composite'', resolution = ''1080p'', enable_mt = False,
      enable_nsys = False, nsys_profile_label = '''',
      nsys_profile_flags = ''--trace=osrt,nvtx,cuda''\<rparr>"

section \<open>Decimal formatting\<close>

lemma digit_inj: "d < 10 \<Longrightarrow> e < 10 \<Longrightarrow> digit d = digit e \<Longrightarrow> d = e"
proof -
  assume a: "d < 10" "e < 10" "digit d = digit e"
  have dist: "distinct ''0123456789''" by simp
  have "length ''0123456789'' = 10" by simp
  with a dist show ?thesis
    unfolding digit_def by (simp add: nth_eq_iff_index_eq)
qed

lemma digit_not_minus: "digit d \<noteq> CHR ''-''"
proof -
  have "d mod 10 < 10" by simp
  then have "''0123456789'' ! (d mod 10) \<in> set ''0123456789''"
    by (intro nth_mem) simp
  then show ?thesis unfolding digit_def by auto
qed

lemma dec_digits_nonempty: "dec_digits n \<noteq> []"
  by (subst dec_digits.simps) simp

lemma dec_digits_last: "last (dec_digits n) = digit (n mod 10)"
  by (subst dec_digits.simps) simp

lemma dec_digits_butlast:
  "butlast (dec_digits n) = (if n < 10 then [] else dec_digits (n div 10))"
  by (subst dec_digits.simps) simp

lemma dec_digits_inj: "dec_digits m = dec_digits n \<Longrightarrow> m = n"
proof (induction m arbitrary: n rule: dec_digits.induct)
  case (1 m)
  from "1.prems" have l: "digit (m mod 10) = digit (n mod 10)"
    by (metis dec_digits_last)
  then have md: "m mod 10 = n mod 10"
    by (intro digit_inj) simp_all
  from "1.prems" have b: "butlast (dec_digits m) = butlast (dec_digits n)" by simp
  show ?case
  proof (cases "m < 10")
    case True
    with b have "n < 10"
      using dec_digits_nonempty[of "n div 10"]
      by (auto simp: dec_digits_butlast split: if_splits)
    with True md show ?thesis by simp
  next
    case False
    with b have n10: "\<not> n < 10"
      using dec_digits_nonempty[of "m div 10"]
      by (auto simp: dec_digits_butlast split: if_splits)
    with False b have "dec_digits (m div 10) = dec_digits (n div 10)"
      by (simp add: dec_digits_butlast)
    with "1.IH" False have "m div 10 = n div 10" by simp
    with md show ?thesis
      by (metis div_mult_mod_eq)
  qed
qed

lemma dec_digits_no_minus: "CHR ''-'' \<notin> set (dec_digits n)"
proof (induction n rule: dec_digits.induct)
  case (1 n)
  show ?case
  proof (cases "n < 10")
    case True
    then show ?thesis by (subst dec_digits.simps) (simp add: digit_not_minus[symmetric])
  next
    case False
    with 1 show ?thesis by (subst dec_digits.simps) (simp add: digit_not_minus[symmetric])
  qed
qed

lemma fmt_d_inj: "fmt_d i = fmt_d j \<Longrightarrow> i = j"
proof -
  assume e: "fmt_d i = fmt_d j"
  have hd_nm: "\<And>n. hd (dec_digits n) \<noteq> CHR ''-''"
    using dec_digits_no_minus dec_digits_nonempty by (metis hd_in_set)
  show ?thesis
  proof (cases "i < 0"; cases "j < 0")
    assume "i < 0" "j < 0"
    with e have "nat (- i) = nat (- j)" by (simp add: fmt_d_def dec_digits_inj)
    with \<open>i < 0\<close> \<open>j < 0\<close> show ?thesis by simp
  next
    assume "i < 0" "\<not> j < 0"
    with e have "CHR ''-'' # dec_digits (nat (- i)) = dec_digits (nat j)" by (simp add: fmt_d_def)
    then have "hd (dec_digits (nat j)) = CHR ''-''" by (metis list.sel(1))
    with hd_nm show ?thesis by simp
  next
    assume "\<not> i < 0" "j < 0"
    with e have "CHR ''-'' # dec_digits (nat (- j)) = dec_digits (nat i)" by (simp add: fmt_d_def)
    then have "hd (dec_digits (nat i)) = CHR ''-''" by (metis list.sel(1))
    with hd_nm show ?thesis by simp
  next
    assume "\<not> i < 0" "\<not> j < 0"
    with e have "nat i = nat j" by (simp add: fmt_d_def dec_digits_inj)
    with \<open>\<not> i < 0\<close> \<open>\<not> j < 0\<close> show ?thesis by simp
  qed
qed

lemma fmt_d_0: "fmt_d 0 = ''0''"
  by (simp add: fmt_d_def dec_digits.simps digit_def)

lemma fmt_hz: "fmt_d (py_int IMAGE_HZ) = ''100''"
  by (simp add: py_int_def IMAGE_HZ_def fmt_d_def dec_digits.simps digit_def)

lemma fold_append_map: "fold (\<lambda>i nodes. nodes @ [f i]) xs acc = acc @ map f xs"
  by (induction xs arbitrary: acc) simp_all

lemma pipeline_nodes_eq:
  "pipeline_nodes N cam = [cam, map_node N] @ map (juliaset_node N) [1..N - 1] @ [colorize_node N]"
  by (simp add: pipeline_nodes_def fold_append_map)

section \<open>Helper lemmas about the construction\<close>

lemma launch_setup_Some:
  "RESOLUTIONS (resolution ctx) = Some wh \<Longrightarrow>
   launch_setup N machine ctx =
     Inr [pipeline_container N machine ctx (cam2image_node wh),
          composite_container N machine ctx (cam2image_node wh)]"
  by (simp add: launch_setup_def)

lemma RESOLUTIONS_miss:
  "key \<notin> {''16K'', ''8K'', ''4K'', ''1080p'', ''720p'', ''480p''} \<Longrightarrow> RESOLUTIONS key = None"
  by (simp add: RESOLUTIONS_def)

lemma last_pipeline_nodes: "last (pipeline_nodes N cam) = colorize_node N"
  by (simp add: pipeline_nodes_def)

lemma split_at_sep:
  "s \<notin> set a \<Longrightarrow> s \<notin> set b \<Longrightarrow> a @ s # x = b @ s # y \<Longrightarrow> a = b \<and> x = y"
proof (induction a arbitrary: b)
  case Nil
  then show ?case by (cases b) auto
next
  case (Cons c a)
  then show ?case by (cases b) auto
qed

lemma split_at_dash:
  assumes "CHR ''-'' \<notin> set a" "CHR ''-'' \<notin> set b" "a @ CHR ''-'' # x = b @ CHR ''-'' # y"
  shows "a = b \<and> x = y"
  using assms by (rule split_at_sep)

lemma profile_core_inj:
  assumes c1: "CHR ''-'' \<notin> set c1" and r1: "CHR ''-'' \<notin> set r1"
    and c2: "CHR ''-'' \<notin> set c2" and r2: "CHR ''-'' \<notin> set r2"
    and eq: "(if \<not> m1 then '''' else ''-mt'') @ ''-'' @ c1 @ ''-'' @ r1 =
             (if \<not> m2 then '''' else ''-mt'') @ ''-'' @ c2 @ ''-'' @ r2"
  shows "c1 = c2 \<and> m1 = m2 \<and> r1 = r2"
proof (cases m1; cases m2)
  assume "m1" "m2"
  with eq have "c1 @ CHR ''-'' # r1 = c2 @ CHR ''-'' # r2" by simp
  with c1 c2 \<open>m1\<close> \<open>m2\<close> show ?thesis using split_at_dash by blast
next
  assume "\<not> m1" "\<not> m2"
  with eq have "c1 @ CHR ''-'' # r1 = c2 @ CHR ''-'' # r2" by simp
  with c1 c2 \<open>\<not> m1\<close> \<open>\<not> m2\<close> show ?thesis using split_at_dash by blast
next
  assume "m1" "\<not> m2"
  with eq have "''mt'' @ CHR ''-'' # (c1 @ CHR ''-'' # r1) = c2 @ CHR ''-'' # r2" by simp
  moreover have "CHR ''-'' \<notin> set ''mt''" by simp
  ultimately have "c1 @ CHR ''-'' # r1 = r2" using c2 split_at_dash by blast
  with r2 show ?thesis by auto
next
  assume "\<not> m1" "m2"
  with eq have "''mt'' @ CHR ''-'' # (c2 @ CHR ''-'' # r2) = c1 @ CHR ''-'' # r1" by simp
  moreover have "CHR ''-'' \<notin> set ''mt''" by simp
  ultimately have "c2 @ CHR ''-'' # r2 = r1" using c1 split_at_dash by blast
  with r1 show ?thesis by auto
qed

lemma build_profile_name_split:
  "build_profile_name machine label cfg mt res =
     (''ros-type_adapt-'' @ machine) @
     ((if \<not> mt then '''' else ''-mt'') @ ''-'' @ cfg @ ''-'' @ res) @
     (''-'' @ fmt_d (py_int IMAGE_HZ) @ ''hz'' @ (if \<not> (label \<noteq> '''') then '''' else ''-'' @ label))"
  by (simp add: build_profile_name_def)

lemma pipeline_nodes_length: "1 \<le> N \<Longrightarrow> length (pipeline_nodes N cam) = nat (N + 2)"
  by (simp add: pipeline_nodes_eq)

lemma pipeline_nodes_plugins:
  "map plugin (pipeline_nodes N cam) =
     [plugin cam, ''type_adapt_example::MapNode'']
       @ replicate (nat (N - 1)) ''type_adapt_example::JuliasetNode''
       @ [''type_adapt_example::ColorizeNode'']"
  by (simp add: pipeline_nodes_eq map_node_def juliaset_node_def colorize_node_def
      map_replicate_const comp_def)

lemma pipeline_nodes_nth:
  assumes "1 \<le> N" "k \<le> nat N + 1"
  shows "pipeline_nodes N cam ! k =
     (if k = 0 then cam else if k = 1 then map_node N
      else if k \<le> nat N then juliaset_node N (int k - 1) else colorize_node N)"
proof -
  consider "k = 0" | "k = 1" | "2 \<le> k" "k \<le> nat N" | "k = nat N + 1" "2 \<le> k"
    using assms by linarith
  then show ?thesis
  proof cases
    case 1 then show ?thesis by (simp add: pipeline_nodes_eq)
  next
    case 2 then show ?thesis by (simp add: pipeline_nodes_eq)
  next
    case 3
    then obtain j where j: "k = j + 2" by (metis add.commute le_Suc_ex)
    with 3 have "j < nat (N - 1)" by linarith
    with 3 j show ?thesis
      by (simp add: pipeline_nodes_eq nth_append)
  next
    case 4
    then obtain j where j: "k = j + 2" by (metis add.commute le_Suc_ex)
    with 4 assms have "j = nat (N - 1)" by linarith
    with 4 j assms show ?thesis
      by (simp add: pipeline_nodes_eq nth_append)
  qed
qed

section \<open>Configuration lookup\<close>

text \<open>
  C9: the resolution table maps \<^verbatim>\<open>1080p\<close> to (1920, 1080) and \<^verbatim>\<open>4K\<close> to (3840, 2160), and
  for every resolution key outside the six keys of the table \<^verbatim>\<open>launch_setup\<close> does not
  return a result: it fails with the key error of the missed lookup.
\<close>

theorem resolution_lookup:
  "RESOLUTIONS ''1080p'' = Some (1920, 1080) \<and>
   RESOLUTIONS ''4K'' = Some (3840, 2160) \<and>
   (\<forall>N machine (ctx :: launch_context).
      resolution ctx \<notin> {''16K'', ''8K'', ''4K'', ''1080p'', ''720p'', ''480p''} \<longrightarrow>
      launch_setup N machine ctx = Inl (KeyError (resolution ctx)))"
proof (intro conjI allI impI)
  show "RESOLUTIONS ''1080p'' = Some (1920, 1080)" by (simp add: RESOLUTIONS_def)
  show "RESOLUTIONS ''4K'' = Some (3840, 2160)" by (simp add: RESOLUTIONS_def)
next
  fix N machine and ctx :: launch_context
  assume "resolution ctx \<notin> {''16K'', ''8K'', ''4K'', ''1080p'', ''720p'', ''480p''}"
  then have "RESOLUTIONS (resolution ctx) = None" by (rule RESOLUTIONS_miss)
  then show "launch_setup N machine ctx = Inl (KeyError (resolution ctx))"
    by (simp add: launch_setup_def)
qed

theorem resolution_lookup_witness:
  "''2K'' \<notin> {''16K'', ''8K'', ''4K'', ''1080p'', ''720p'', ''480p''} \<and>
   launch_setup MAX_ITERATION ''x86_64'' (default_context\<lparr>resolution := ''2K''\<rparr>)
     = Inl (KeyError ''2K'')"
proof -
  have h: "resolution (default_context\<lparr>resolution := ''2K''\<rparr>)
             \<notin> {''16K'', ''8K'', ''4K'', ''1080p'', ''720p'', ''480p''}"
    by simp
  from resolution_lookup have
    "resolution (default_context\<lparr>resolution := ''2K''\<rparr>)
       \<notin> {''16K'', ''8K'', ''4K'', ''1080p'', ''720p'', ''480p''} \<longrightarrow>
     launch_setup MAX_ITERATION ''x86_64'' (default_context\<lparr>resolution := ''2K''\<rparr>)
       = Inl (KeyError (resolution (default_context\<lparr>resolution := ''2K''\<rparr>)))"
    by blast
  with h show ?thesis by simp
qed

section \<open>The profile name\<close>

text \<open>
  C6: the profile name is the concatenation of the fixed prefix, the architecture string,
  the suffix \<^verbatim>\<open>-mt\<close> exactly when multithreading is enabled, the configuration, the
  resolution key, the image rate as the integer 100 followed by \<^verbatim>\<open>hz\<close>, and the label
  after a dash exactly when the label is not empty. Without multithreading and with an
  empty label, for the pipeline at 720p, it is the prefix, the architecture string and
  \<^verbatim>\<open>-pipeline-720p-100hz\<close>.
\<close>

theorem build_profile_name_shape:
  "build_profile_name machine label cfg mt res =
     ''ros-type_adapt-'' @ machine @ (if mt then ''-mt'' else '''') @ ''-'' @ cfg @ ''-'' @ res
       @ ''-'' @ ''100'' @ ''hz'' @ (if label = '''' then '''' else ''-'' @ label) \<and>
   build_profile_name machine '''' ''pipeline'' False ''720p'' =
     ''ros-type_adapt-'' @ machine @ ''-pipeline-720p-100hz''"
  by (simp add: build_profile_name_def fmt_hz)

theorem build_profile_name_shape_witness:
  "build_profile_name ''aarch64'' '''' ''pipeline'' False ''720p'' =
     ''ros-type_adapt-aarch64-pipeline-720p-100hz'' \<and>
   build_profile_name ''aarch64'' ''run1'' ''composite'' True ''4K'' =
     ''ros-type_adapt-aarch64-mt-composite-4K-100hz-run1''"
  using build_profile_name_shape [of "''aarch64''" "''''" "''pipeline''" False "''720p''"]
    build_profile_name_shape [of "''aarch64''" "''run1''" "''composite''" True "''4K''"]
  by simp

lemma profile_name_inj_dash_free:
  assumes "CHR ''-'' \<notin> set c1" "CHR ''-'' \<notin> set r1" "CHR ''-'' \<notin> set c2" "CHR ''-'' \<notin> set r2"
    and "(c1, m1, r1) \<noteq> (c2, m2, r2)"
  shows "build_profile_name machine label c1 m1 r1 \<noteq> build_profile_name machine label c2 m2 r2"
proof
  assume "build_profile_name machine label c1 m1 r1 = build_profile_name machine label c2 m2 r2"
  then have "(if \<not> m1 then '''' else ''-mt'') @ ''-'' @ c1 @ ''-'' @ r1 =
             (if \<not> m2 then '''' else ''-mt'') @ ''-'' @ c2 @ ''-'' @ r2"
    unfolding build_profile_name_split by (simp only: same_append_eq append_same_eq)
  with assms(1-4) have "c1 = c2 \<and> m1 = m2 \<and> r1 = r2" by (rule profile_core_inj)
  with assms(5) show False by simp
qed

lemma mode_dash_free: "c \<in> {''pipeline'', ''composite''} \<Longrightarrow> CHR ''-'' \<notin> set c"
  by auto

lemma resolution_key_dash_free: "r \<in> dom RESOLUTIONS \<Longrightarrow> CHR ''-'' \<notin> set r"
proof -
  assume "r \<in> dom RESOLUTIONS"
  then have some: "RESOLUTIONS r \<noteq> None" by (simp add: domIff)
  have "r \<in> {''16K'', ''8K'', ''4K'', ''1080p'', ''720p'', ''480p''}"
  proof (rule ccontr)
    assume "r \<notin> {''16K'', ''8K'', ''4K'', ''1080p'', ''720p'', ''480p''}"
    then have "RESOLUTIONS r = None" by (rule RESOLUTIONS_miss)
    with some show False by simp
  qed
  then show ?thesis by auto
qed

text \<open>
  C7: the profile name avoids collisions. Take two argument tuples (label, topology mode,
  multithreading flag, resolution key) whose topology modes are \<^verbatim>\<open>pipeline\<close> or
  \<^verbatim>\<open>composite\<close> and whose resolution keys are keys of the resolution table. If the tuples
  are different and have the same label, then on one host their profile names are
  different.
\<close>

theorem profile_name_collision_avoiding:
  assumes "c1 \<in> {''pipeline'', ''composite''}" "c2 \<in> {''pipeline'', ''composite''}"
    and "r1 \<in> dom RESOLUTIONS" "r2 \<in> dom RESOLUTIONS"
    and "l1 = l2" "(l1, c1, m1, r1) \<noteq> (l2, c2, m2, r2)"
  shows "build_profile_name machine l1 c1 m1 r1 \<noteq> build_profile_name machine l2 c2 m2 r2"
proof -
  from assms(5,6) have ne: "(c1, m1, r1) \<noteq> (c2, m2, r2)" by simp
  have "build_profile_name machine l1 c1 m1 r1 \<noteq> build_profile_name machine l1 c2 m2 r2"
    using mode_dash_free [OF assms(1)] resolution_key_dash_free [OF assms(3)]
      mode_dash_free [OF assms(2)] resolution_key_dash_free [OF assms(4)] ne
    by (rule profile_name_inj_dash_free)
  with assms(5) show ?thesis by simp
qed

theorem profile_name_collision_avoiding_witness:
  "''pipeline'' \<in> {''pipeline'', ''composite''} \<and> ''composite'' \<in> {''pipeline'', ''composite''} \<and>
   ''720p'' \<in> dom RESOLUTIONS \<and> ''4K'' \<in> dom RESOLUTIONS \<and>
   (''run'', ''pipeline'', False, ''720p'') \<noteq> (''run'', ''composite'', True, ''4K'') \<and>
   build_profile_name ''x86_64'' ''run'' ''pipeline'' False ''720p'' \<noteq>
   build_profile_name ''x86_64'' ''run'' ''composite'' True ''4K'' \<and>
   build_profile_name ''x86_64'' ''run'' ''pipeline'' False ''720p'' \<noteq>
   build_profile_name ''x86_64'' ''run'' ''pipeline'' True ''720p''"
proof -
  have c: "''pipeline'' \<in> {''pipeline'', ''composite''}"
    "''composite'' \<in> {''pipeline'', ''composite''}"
    by simp_all
  have r: "''720p'' \<in> dom RESOLUTIONS" "''4K'' \<in> dom RESOLUTIONS"
    by (simp_all add: RESOLUTIONS_def)
  have l: "''run'' = ''run''" by simp
  have d1: "(''run'', ''pipeline'', False, ''720p'') \<noteq> (''run'', ''composite'', True, ''4K'')"
    by simp
  have d2: "(''run'', ''pipeline'', False, ''720p'') \<noteq> (''run'', ''pipeline'', True, ''720p'')"
    by simp
  from profile_name_collision_avoiding [OF c(1) c(2) r(1) r(2) l d1, of "''x86_64''"]
    profile_name_collision_avoiding [OF c(1) c(1) r(1) r(1) l d2, of "''x86_64''"]
    c r d1
  show ?thesis by blast
qed

section \<open>The containers\<close>

text \<open>
  C8: for every configuration whose resolution key is in the table, \<^verbatim>\<open>launch_setup\<close>
  returns the two containers, and for each of them: with profiling enabled the prefix is
  the \<^verbatim>\<open>nsys profile\<close> command built from the profiling flags and the profile name and both
  timeouts are \<^verbatim>\<open>500\<close>; with profiling disabled the prefix is empty and both timeouts are
  \<^verbatim>\<open>5\<close>. So the prefix is empty exactly when profiling is disabled, and a timeout is the
  long value exactly when profiling is enabled.
\<close>

theorem profiling_wrapper_and_timeouts:
  assumes "RESOLUTIONS (resolution ctx) = Some wh"
  shows "\<exists>pc cc. launch_setup N machine ctx = Inr [pc, cc] \<and>
    (\<forall>g \<in> {pc, cc}.
       (enable_nsys ctx \<longrightarrow>
          prefix g = ''nsys profile '' @ nsys_profile_flags ctx @ '' -o ''
            @ build_profile_name machine (nsys_profile_label ctx) (config ctx)
                (enable_mt ctx) (resolution ctx) \<and>
          sigkill_timeout g = ''500'' \<and> sigterm_timeout g = ''500'') \<and>
       (\<not> enable_nsys ctx \<longrightarrow>
          prefix g = '''' \<and> sigkill_timeout g = ''5'' \<and> sigterm_timeout g = ''5'') \<and>
       (prefix g = '''' \<longleftrightarrow> \<not> enable_nsys ctx) \<and>
       (sigkill_timeout g = ''500'' \<longleftrightarrow> enable_nsys ctx) \<and>
       (sigterm_timeout g = ''500'' \<longleftrightarrow> enable_nsys ctx))"
  using launch_setup_Some [OF assms, of N machine]
  by (simp add: pipeline_container_def composite_container_def container_prefix_def)

theorem profiling_wrapper_and_timeouts_witness:
  "RESOLUTIONS (resolution (default_context\<lparr>config := ''pipeline'', resolution := ''720p'',
       enable_nsys := True\<rparr>)) = Some (1280, 720) \<and>
   (\<exists>pc cc. launch_setup MAX_ITERATION ''x86_64''
        (default_context\<lparr>config := ''pipeline'', resolution := ''720p'', enable_nsys := True\<rparr>)
        = Inr [pc, cc] \<and>
      prefix pc = ''nsys profile --trace=osrt,nvtx,cuda -o ros-type_adapt-x86_64-pipeline-720p-100hz'' \<and>
      prefix cc = prefix pc \<and>
      sigkill_timeout pc = ''500'' \<and> sigterm_timeout pc = ''500'' \<and>
      sigkill_timeout cc = ''500'' \<and> sigterm_timeout cc = ''500'')"
proof -
  have h: "RESOLUTIONS (resolution (default_context\<lparr>config := ''pipeline'',
      resolution := ''720p'', enable_nsys := True\<rparr>)) = Some (1280, 720)"
    by (simp add: RESOLUTIONS_def)
  from profiling_wrapper_and_timeouts [OF h, of MAX_ITERATION "''x86_64''"] h
  show ?thesis
    by (auto simp add: default_context_def build_profile_name_def fmt_hz)
qed

text \<open>
  C3: for every configuration whose resolution key is in the table, \<^verbatim>\<open>launch_setup\<close>
  returns the two containers; when the configuration is \<^verbatim>\<open>pipeline\<close> or \<^verbatim>\<open>composite\<close>,
  exactly one of their two conditions evaluates to true, and for every other
  configuration string both evaluate to false.
\<close>

theorem exactly_one_group_active:
  assumes "RESOLUTIONS (resolution ctx) = Some wh"
  shows "\<exists>pc cc. launch_setup N machine ctx = Inr [pc, cc] \<and>
    (config ctx \<in> {''pipeline'', ''composite''} \<longrightarrow>
       length (filter (evaluate ctx) [condition pc, condition cc]) = 1) \<and>
    (config ctx \<notin> {''pipeline'', ''composite''} \<longrightarrow>
       \<not> evaluate ctx (condition pc) \<and> \<not> evaluate ctx (condition cc))"
  using launch_setup_Some [OF assms, of N machine]
  by (auto simp add: pipeline_container_def composite_container_def launch_configuration_def)

theorem exactly_one_group_active_witness:
  "RESOLUTIONS (resolution default_context) = Some (1920, 1080) \<and>
   config default_context \<in> {''pipeline'', ''composite''} \<and>
   (\<exists>pc cc. launch_setup MAX_ITERATION ''x86_64'' default_context = Inr [pc, cc] \<and>
      length (filter (evaluate default_context) [condition pc, condition cc]) = 1)"
proof -
  have h: "RESOLUTIONS (resolution default_context) = Some (1920, 1080)"
    by (simp add: RESOLUTIONS_def default_context_def)
  have c: "config default_context \<in> {''pipeline'', ''composite''}"
    by (simp add: default_context_def)
  from exactly_one_group_active [OF h, of MAX_ITERATION "''x86_64''"] h c
  show ?thesis by blast
qed

text \<open>
  C5: for every chain length and every configuration whose resolution key is in the
  table, the composite container (the one whose condition asks for the configuration
  \<^verbatim>\<open>composite\<close>) holds exactly two nodes, the capture node and then the composite node;
  the composite node's parameters are \<^verbatim>\<open>is_composite = True\<close> followed by the shared
  Julia-set parameters (the x range from -2.5 to 2.5, the y range from -1.5 to 1.5, the
  start point (0.7885, 0.7885), the boundary radius 25.0 and the maximal iteration count
  as a float), and its output is routed to \<^verbatim>\<open>/composite/image_out\<close>, which is not the
  channel the last node of the pipeline container writes to.
\<close>

theorem composite_stage_list:
  assumes "RESOLUTIONS (resolution ctx) = Some wh"
  shows "\<exists>pc cc. launch_setup N machine ctx = Inr [pc, cc] \<and>
    condition cc = LaunchConfigurationEquals ''config'' ''composite'' \<and>
    length (composable_node_descriptions cc) = 2 \<and>
    map plugin (composable_node_descriptions cc) =
      [''image_tools::Cam2Image'', ''type_adapt_example::JuliasetNode''] \<and>
    composable_node_descriptions cc ! 0 = cam2image_node wh \<and>
    parameters (composable_node_descriptions cc ! 1) =
      [[(''is_composite'', PBool True)],
       [(''min_x_range'', PFloat (- 2.5))],
       [(''max_x_range'', PFloat 2.5)],
       [(''min_y_range'', PFloat (- 1.5))],
       [(''max_y_range'', PFloat 1.5)],
       [(''start_x'', PFloat 0.7885)],
       [(''start_y'', PFloat 0.7885)],
       [(''boundary_radius'', PFloat 25.0)],
       [(''max_iterations'', PFloat (of_int N))]] \<and>
    map_of (remappings (composable_node_descriptions cc ! 1)) ''/image_out'' =
      Some ''/composite/image_out'' \<and>
    map_of (remappings (last (composable_node_descriptions pc))) ''/image_out'' =
      Some ''/pipeline/image_out'' \<and>
    map_of (remappings (composable_node_descriptions cc ! 1)) ''/image_out'' \<noteq>
      map_of (remappings (last (composable_node_descriptions pc))) ''/image_out''"
  using launch_setup_Some [OF assms, of N machine]
  by (simp add: pipeline_container_def composite_container_def last_pipeline_nodes
      composite_node_def colorize_node_def cam2image_node_def JULIASET_PARAMS_def
      py_float_def)

theorem composite_stage_list_witness:
  "RESOLUTIONS (resolution default_context) = Some (1920, 1080) \<and>
   (\<exists>pc cc. launch_setup MAX_ITERATION ''x86_64'' default_context = Inr [pc, cc] \<and>
      length (composable_node_descriptions cc) = 2 \<and>
      map name (composable_node_descriptions cc) = [''cam2image'', ''juliaset_node''] \<and>
      parameters (composable_node_descriptions cc ! 1) =
        [[(''is_composite'', PBool True)],
         [(''min_x_range'', PFloat (- 2.5))],
         [(''max_x_range'', PFloat 2.5)],
         [(''min_y_range'', PFloat (- 1.5))],
         [(''max_y_range'', PFloat 1.5)],
         [(''start_x'', PFloat 0.7885)],
         [(''start_y'', PFloat 0.7885)],
         [(''boundary_radius'', PFloat 25.0)],
         [(''max_iterations'', PFloat 50.0)]])"
proof -
  have h: "RESOLUTIONS (resolution default_context) = Some (1920, 1080)"
    by (simp add: RESOLUTIONS_def default_context_def)
  have m: "real_of_int MAX_ITERATION = 50.0"
    by (simp add: MAX_ITERATION_def)
  from composite_stage_list [OF h, of MAX_ITERATION "''x86_64''"] obtain pc cc where
    r: "launch_setup MAX_ITERATION ''x86_64'' default_context = Inr [pc, cc]"
    and l: "length (composable_node_descriptions cc) = 2"
    and c0: "composable_node_descriptions cc ! 0 = cam2image_node (1920, 1080)"
    and pl: "map plugin (composable_node_descriptions cc) =
      [''image_tools::Cam2Image'', ''type_adapt_example::JuliasetNode'']"
    and p: "parameters (composable_node_descriptions cc ! 1) =
      [[(''is_composite'', PBool True)],
       [(''min_x_range'', PFloat (- 2.5))],
       [(''max_x_range'', PFloat 2.5)],
       [(''min_y_range'', PFloat (- 1.5))],
       [(''max_y_range'', PFloat 1.5)],
       [(''start_x'', PFloat 0.7885)],
       [(''start_y'', PFloat 0.7885)],
       [(''boundary_radius'', PFloat 25.0)],
       [(''max_iterations'', PFloat (of_int MAX_ITERATION))]]"
    by (elim exE conjE)
  from r h have cc: "cc = composite_container MAX_ITERATION ''x86_64'' default_context
      (cam2image_node (1920, 1080))"
    by (simp add: launch_setup_def)
  have g1: "map name (composable_node_descriptions cc) = [''cam2image'', ''juliaset_node'']"
    unfolding cc by (simp add: composite_container_def cam2image_node_def composite_node_def)
  have g2: "parameters (composable_node_descriptions cc ! 1) =
        [[(''is_composite'', PBool True)],
         [(''min_x_range'', PFloat (- 2.5))],
         [(''max_x_range'', PFloat 2.5)],
         [(''min_y_range'', PFloat (- 1.5))],
         [(''max_y_range'', PFloat 1.5)],
         [(''start_x'', PFloat 0.7885)],
         [(''start_y'', PFloat 0.7885)],
         [(''boundary_radius'', PFloat 25.0)],
         [(''max_iterations'', PFloat 50.0)]]"
    using p unfolding m .
  show ?thesis
    by (intro conjI exI [where x = cc] exI [where x = pc]) (fact h r l g1 g2)+
qed

section \<open>The colorizing node's parameters\<close>



section \<open>Helper lemmas about the pipeline chain\<close>

lemma fmt_d_eq_iff: "fmt_d i = fmt_d j \<longleftrightarrow> i = j"
  using fmt_d_inj by blast

lemma stage_nth:
  assumes "1 \<le> i" "i \<le> N - 1"
  shows "pipeline_nodes N cam ! nat (i + 1) = juliaset_node N i"
proof -
  from assms have "1 \<le> N" "nat (i + 1) \<le> nat N + 1" "nat (i + 1) \<noteq> 0" "nat (i + 1) \<noteq> 1"
    "nat (i + 1) \<le> nat N" "int (nat (i + 1)) - 1 = i"
    by linarith+
  then show ?thesis by (simp add: pipeline_nodes_nth)
qed

lemma names_chain:
  "map name (pipeline_nodes N cam) =
     [name cam, ''map_node''] @ map (\<lambda>j. ''juliaset_node'' @ fmt_d j) [1..N - 1]
       @ [''colorize_node'']"
  by (simp add: pipeline_nodes_eq map_node_def juliaset_node_def colorize_node_def comp_def)

lemma names_distinct:
  "distinct ([''cam2image'', ''map_node''] @ map (\<lambda>j. ''juliaset_node'' @ fmt_d j) [1..N - 1]
       @ [''colorize_node''])"
proof -
  have "inj_on (\<lambda>j. ''juliaset_node'' @ fmt_d j) (set [1..N - 1])"
    by (rule inj_onI) (simp add: fmt_d_eq_iff)
  then have "distinct (map (\<lambda>j. ''juliaset_node'' @ fmt_d j) [1..N - 1])"
    by (simp add: distinct_map)
  then show ?thesis by auto
qed

lemma output_routes_chain:
  "concat (map output_routes (pipeline_nodes N (cam2image_node wh))) =
     [''/image_in'', ''/image_out'' @ fmt_d 0] @ map (\<lambda>j. ''/image_out'' @ fmt_d j) [1..N - 1]
       @ [''/pipeline/image_out'']"
proof -
  have "concat (map (output_routes \<circ> juliaset_node N) xs) = map (\<lambda>j. ''/image_out'' @ fmt_d j) xs" for xs
    by (induction xs) (simp_all add: output_routes_def juliaset_node_def)
  then show ?thesis
    by (simp add: pipeline_nodes_eq output_routes_def cam2image_node_def map_node_def
        colorize_node_def fmt_d_0)
qed

lemma output_routes_distinct:
  "distinct ([''/image_in'', ''/image_out'' @ fmt_d 0] @ map (\<lambda>j. ''/image_out'' @ fmt_d j) [1..N - 1]
       @ [''/pipeline/image_out''])"
proof -
  have "inj_on (\<lambda>j. ''/image_out'' @ fmt_d j) (set [1..N - 1])"
    by (rule inj_onI) (simp add: fmt_d_eq_iff)
  then have "distinct (map (\<lambda>j. ''/image_out'' @ fmt_d j) [1..N - 1])"
    by (simp add: distinct_map)
  then show ?thesis by (auto simp add: fmt_d_eq_iff)
qed

lemma routes_cam: "routes (cam2image_node wh) = {''/image_in''}"
  by (simp add: routes_def cam2image_node_def)

lemma routes_map: "routes (map_node N) = {''/image_out'' @ fmt_d 0}"
  by (simp add: routes_def map_node_def fmt_d_0)

lemma routes_juliaset:
  "routes (juliaset_node N i) = {''/image_out'' @ fmt_d (i - 1), ''/image_out'' @ fmt_d i}"
  by (simp add: routes_def juliaset_node_def)

lemma routes_colorize:
  "routes (colorize_node N) = {''/image_out'' @ fmt_d (N - 1), ''/pipeline/image_out''}"
  by (simp add: routes_def colorize_node_def)

lemma routes_nth:
  assumes "1 \<le> N" "k \<le> nat N + 1"
  shows "routes (pipeline_nodes N (cam2image_node wh) ! k) =
     (if k = 0 then {''/image_in''}
      else if k = 1 then {''/image_out'' @ fmt_d 0}
      else if k \<le> nat N then {''/image_out'' @ fmt_d (int k - 2), ''/image_out'' @ fmt_d (int k - 1)}
      else {''/image_out'' @ fmt_d (N - 1), ''/pipeline/image_out''})"
  using assms
  by (auto simp add: pipeline_nodes_nth routes_cam routes_map routes_juliaset routes_colorize)

lemma non_adjacent_disjoint:
  assumes "1 \<le> N" "a + 1 < b" "b < length (pipeline_nodes N (cam2image_node wh))"
  shows "routes (pipeline_nodes N (cam2image_node wh) ! a)
           \<inter> routes (pipeline_nodes N (cam2image_node wh) ! b) = {}"
proof -
  from assms have b: "b \<le> nat N + 1" and a: "a \<le> nat N + 1"
    by (simp_all add: pipeline_nodes_length)
  from assms(1,2) a b show ?thesis
    by (auto simp add: routes_nth fmt_d_eq_iff split: if_splits)
qed

section \<open>The pipeline chain\<close>

text \<open>
  In the node list of the pipeline container the capture node is at position 0, the
  mapping node (stage 0) at position 1, the iterative node of index \<open>i\<close> (stage \<open>i\<close>) at
  position \<open>i + 1\<close>, and the colorizing node is the last one.
\<close>

text \<open>
  C2: for every chain length \<open>N \<ge> 1\<close> and every configuration whose resolution key is in
  the table, the pipeline container (the one whose condition asks for the configuration
  \<^verbatim>\<open>pipeline\<close>) holds exactly \<open>N + 2\<close> nodes: the capture node, the mapping node,
  \<open>N - 1\<close> iterative nodes and the colorizing node, in this order.
\<close>

theorem pipeline_stage_count:
  assumes "1 \<le> N" "RESOLUTIONS (resolution ctx) = Some wh"
  shows "\<exists>pc cc. launch_setup N machine ctx = Inr [pc, cc] \<and>
    condition pc = LaunchConfigurationEquals ''config'' ''pipeline'' \<and>
    length (composable_node_descriptions pc) = nat (N + 2) \<and>
    map plugin (composable_node_descriptions pc) =
      [''image_tools::Cam2Image'', ''type_adapt_example::MapNode'']
        @ replicate (nat (N - 1)) ''type_adapt_example::JuliasetNode''
        @ [''type_adapt_example::ColorizeNode'']"
  using launch_setup_Some [OF assms(2), of N machine] assms(1)
  by (simp add: pipeline_container_def pipeline_nodes_length pipeline_nodes_plugins
      cam2image_node_def)

theorem pipeline_stage_count_witness:
  "(1::int) \<le> MAX_ITERATION \<and>
   RESOLUTIONS (resolution (default_context\<lparr>config := ''pipeline''\<rparr>)) = Some (1920, 1080) \<and>
   (\<exists>pc cc. launch_setup MAX_ITERATION ''x86_64'' (default_context\<lparr>config := ''pipeline''\<rparr>)
        = Inr [pc, cc] \<and>
      length (composable_node_descriptions pc) = 52) \<and>
   (\<exists>pc cc. launch_setup 1 ''x86_64'' (default_context\<lparr>config := ''pipeline''\<rparr>)
        = Inr [pc, cc] \<and>
      map plugin (composable_node_descriptions pc) =
        [''image_tools::Cam2Image'', ''type_adapt_example::MapNode'',
         ''type_adapt_example::ColorizeNode''])"
proof -
  have n: "(1::int) \<le> MAX_ITERATION" "(1::int) \<le> 1"
    by (simp_all add: MAX_ITERATION_def)
  have h: "RESOLUTIONS (resolution (default_context\<lparr>config := ''pipeline''\<rparr>))
             = Some (1920, 1080)"
    by (simp add: RESOLUTIONS_def default_context_def)
  have m: "nat (MAX_ITERATION + 2) = 52"
    by (simp add: MAX_ITERATION_def)
  from pipeline_stage_count [OF n(1) h, of "''x86_64''"]
    pipeline_stage_count [OF n(2) h, of "''x86_64''"] n h m
  show ?thesis by auto
qed

text \<open>
  C4: for every \<open>i\<close> from 1 to \<open>N - 1\<close>, the iterative node of index \<open>i\<close> is named
  \<^verbatim>\<open>juliaset_node\<close> followed by the decimal digits of \<open>i\<close>, carries the parameters
  \<^verbatim>\<open>is_composite = False\<close> and \<^verbatim>\<open>proc_id = i\<close> followed by the shared Julia-set parameters
  (the x range from -2.5 to 2.5, the y range from -1.5 to 1.5, the start point
  (0.7885, 0.7885), the boundary radius 25.0 and the maximal iteration count as a float),
  reads from the channel of index \<open>i - 1\<close> and writes to the channel of index \<open>i\<close>. The
  naming is injective in the index, the index suffixes of the list are \<open>1, ..., N - 1\<close> in
  increasing order, and no two nodes of the pipeline container have the same name.
\<close>

theorem iterative_stage_descriptor:
  assumes "1 \<le> i" "i \<le> N - 1" "RESOLUTIONS (resolution ctx) = Some wh"
  shows "\<exists>pc cc. launch_setup N machine ctx = Inr [pc, cc] \<and>
    name (composable_node_descriptions pc ! nat (i + 1)) = ''juliaset_node'' @ fmt_d i \<and>
    plugin (composable_node_descriptions pc ! nat (i + 1)) = ''type_adapt_example::JuliasetNode'' \<and>
    parameters (composable_node_descriptions pc ! nat (i + 1)) =
      [[(''is_composite'', PBool False)],
       [(''proc_id'', PInt i)],
       [(''min_x_range'', PFloat (- 2.5))],
       [(''max_x_range'', PFloat 2.5)],
       [(''min_y_range'', PFloat (- 1.5))],
       [(''max_y_range'', PFloat 1.5)],
       [(''start_x'', PFloat 0.7885)],
       [(''start_y'', PFloat 0.7885)],
       [(''boundary_radius'', PFloat 25.0)],
       [(''max_iterations'', PFloat (of_int N))]] \<and>
    map_of (remappings (composable_node_descriptions pc ! nat (i + 1))) ''/image_in'' =
      Some (''/image_out'' @ fmt_d (i - 1)) \<and>
    map_of (remappings (composable_node_descriptions pc ! nat (i + 1))) ''/image_out'' =
      Some (''/image_out'' @ fmt_d i) \<and>
    (\<forall>j. name (juliaset_node N j) = name (juliaset_node N i) \<longrightarrow> j = i) \<and>
    map name (composable_node_descriptions pc) =
      [''cam2image'', ''map_node''] @ map (\<lambda>j. ''juliaset_node'' @ fmt_d j) [1..N - 1]
        @ [''colorize_node''] \<and>
    distinct (map name (composable_node_descriptions pc))"
proof -
  let ?nodes = "pipeline_nodes N (cam2image_node wh)"
  let ?pc = "pipeline_container N machine ctx (cam2image_node wh)"
  let ?cc = "composite_container N machine ctx (cam2image_node wh)"
  have ls: "launch_setup N machine ctx = Inr [?pc, ?cc]"
    using assms(3) by (rule launch_setup_Some)
  have pc: "composable_node_descriptions ?pc = ?nodes"
    by (simp add: pipeline_container_def)
  have st: "?nodes ! nat (i + 1) = juliaset_node N i"
    using assms(1,2) by (rule stage_nth)
  have f1: "name (?nodes ! nat (i + 1)) = ''juliaset_node'' @ fmt_d i"
    unfolding st by (simp add: juliaset_node_def)
  have f2: "plugin (?nodes ! nat (i + 1)) = ''type_adapt_example::JuliasetNode''"
    unfolding st by (simp add: juliaset_node_def)
  have f3: "parameters (?nodes ! nat (i + 1)) =
      [[(''is_composite'', PBool False)],
       [(''proc_id'', PInt i)],
       [(''min_x_range'', PFloat (- 2.5))],
       [(''max_x_range'', PFloat 2.5)],
       [(''min_y_range'', PFloat (- 1.5))],
       [(''max_y_range'', PFloat 1.5)],
       [(''start_x'', PFloat 0.7885)],
       [(''start_y'', PFloat 0.7885)],
       [(''boundary_radius'', PFloat 25.0)],
       [(''max_iterations'', PFloat (of_int N))]]"
    unfolding st by (simp add: juliaset_node_def JULIASET_PARAMS_def py_float_def)
  have f4: "map_of (remappings (?nodes ! nat (i + 1))) ''/image_in'' =
       Some (''/image_out'' @ fmt_d (i - 1))"
    unfolding st by (simp add: juliaset_node_def)
  have f5: "map_of (remappings (?nodes ! nat (i + 1))) ''/image_out'' =
       Some (''/image_out'' @ fmt_d i)"
    unfolding st by (simp add: juliaset_node_def)
  have f6: "\<forall>j. name (juliaset_node N j) = name (juliaset_node N i) \<longrightarrow> j = i"
    by (simp add: juliaset_node_def fmt_d_eq_iff)
  have cam: "name (cam2image_node wh) = ''cam2image''"
    by (simp add: cam2image_node_def)
  have f7: "map name ?nodes =
      [''cam2image'', ''map_node''] @ map (\<lambda>j. ''juliaset_node'' @ fmt_d j) [1..N - 1]
        @ [''colorize_node'']"
    unfolding names_chain cam ..
  have f8: "distinct (map name ?nodes)"
    unfolding f7 by (rule names_distinct)
  show ?thesis
    by (rule exI [where x = ?pc], rule exI [where x = ?cc], unfold pc, intro conjI)
      (fact ls f1 f2 f3 f4 f5 f6 f7 f8)+
qed

theorem iterative_stage_descriptor_witness:
  "(1::int) \<le> 49 \<and> (49::int) \<le> MAX_ITERATION - 1 \<and>
   RESOLUTIONS (resolution (default_context\<lparr>config := ''pipeline''\<rparr>)) = Some (1920, 1080) \<and>
   (\<exists>pc cc. launch_setup MAX_ITERATION ''x86_64'' (default_context\<lparr>config := ''pipeline''\<rparr>)
        = Inr [pc, cc] \<and>
      name (composable_node_descriptions pc ! 50) = ''juliaset_node49'' \<and>
      parameters (composable_node_descriptions pc ! 50) =
        [[(''is_composite'', PBool False)],
         [(''proc_id'', PInt 49)],
         [(''min_x_range'', PFloat (- 2.5))],
         [(''max_x_range'', PFloat 2.5)],
         [(''min_y_range'', PFloat (- 1.5))],
         [(''max_y_range'', PFloat 1.5)],
         [(''start_x'', PFloat 0.7885)],
         [(''start_y'', PFloat 0.7885)],
         [(''boundary_radius'', PFloat 25.0)],
         [(''max_iterations'', PFloat 50.0)]] \<and>
      map_of (remappings (composable_node_descriptions pc ! 50)) ''/image_in''
        = Some ''/image_out48'' \<and>
      map_of (remappings (composable_node_descriptions pc ! 50)) ''/image_out''
        = Some ''/image_out49'')"
proof -
  have n: "(1::int) \<le> 49" "(49::int) \<le> MAX_ITERATION - 1"
    by (simp_all add: MAX_ITERATION_def)
  have h: "RESOLUTIONS (resolution (default_context\<lparr>config := ''pipeline''\<rparr>))
             = Some (1920, 1080)"
    by (simp add: RESOLUTIONS_def default_context_def)
  have d: "fmt_d 49 = ''49''" "fmt_d 48 = ''48''"
    by (simp_all add: fmt_d_def dec_digits.simps digit_def)
  have k: "nat (49 + 1) = 50" "(49::int) - 1 = 48"
    by simp_all
  have m: "real_of_int MAX_ITERATION = 50.0"
    by (simp add: MAX_ITERATION_def)
  from iterative_stage_descriptor [OF n h, of "''x86_64''"] obtain pc cc where
    r: "launch_setup MAX_ITERATION ''x86_64'' (default_context\<lparr>config := ''pipeline''\<rparr>)
          = Inr [pc, cc]"
    and f1: "name (composable_node_descriptions pc ! nat (49 + 1)) = ''juliaset_node'' @ fmt_d 49"
    and fp: "parameters (composable_node_descriptions pc ! nat (49 + 1)) =
      [[(''is_composite'', PBool False)],
       [(''proc_id'', PInt 49)],
       [(''min_x_range'', PFloat (- 2.5))],
       [(''max_x_range'', PFloat 2.5)],
       [(''min_y_range'', PFloat (- 1.5))],
       [(''max_y_range'', PFloat 1.5)],
       [(''start_x'', PFloat 0.7885)],
       [(''start_y'', PFloat 0.7885)],
       [(''boundary_radius'', PFloat 25.0)],
       [(''max_iterations'', PFloat (of_int MAX_ITERATION))]]"
    and f2: "map_of (remappings (composable_node_descriptions pc ! nat (49 + 1))) ''/image_in'' =
         Some (''/image_out'' @ fmt_d (49 - 1))"
    and f3: "map_of (remappings (composable_node_descriptions pc ! nat (49 + 1))) ''/image_out'' =
         Some (''/image_out'' @ fmt_d 49)"
    by (elim exE conjE)
  have g1: "name (composable_node_descriptions pc ! 50) = ''juliaset_node49''"
    using f1 unfolding k d by simp
  have gp: "parameters (composable_node_descriptions pc ! 50) =
        [[(''is_composite'', PBool False)],
         [(''proc_id'', PInt 49)],
         [(''min_x_range'', PFloat (- 2.5))],
         [(''max_x_range'', PFloat 2.5)],
         [(''min_y_range'', PFloat (- 1.5))],
         [(''max_y_range'', PFloat 1.5)],
         [(''start_x'', PFloat 0.7885)],
         [(''start_y'', PFloat 0.7885)],
         [(''boundary_radius'', PFloat 25.0)],
         [(''max_iterations'', PFloat 50.0)]]"
    using fp unfolding k m .
  have g2: "map_of (remappings (composable_node_descriptions pc ! 50)) ''/image_in''
       = Some ''/image_out48''"
    using f2 unfolding k d by simp
  have g3: "map_of (remappings (composable_node_descriptions pc ! 50)) ''/image_out''
       = Some ''/image_out49''"
    using f3 unfolding k d by simp
  show ?thesis
    by (intro conjI exI [where x = cc] exI [where x = pc]) (fact n h r g1 gp g2 g3)+
qed

text \<open>
  C1: for every chain length \<open>N \<ge> 1\<close> and every configuration whose resolution key is in
  the table, in the pipeline container: for every \<open>i\<close> from 1 to \<open>N - 1\<close> the output
  channel of stage \<open>i - 1\<close> (the mapping node when \<open>i = 1\<close>) is the input channel of the
  iterative stage \<open>i\<close>; the input channel of the colorizing node is the output channel of
  stage \<open>N - 1\<close>; the channels the nodes of the chain write to are pairwise distinct; and
  two nodes that are not neighbours in the list have no channel in common.
\<close>

theorem pipeline_routes_chain:
  assumes "1 \<le> N" "RESOLUTIONS (resolution ctx) = Some wh"
  shows "\<exists>pc cc. launch_setup N machine ctx = Inr [pc, cc] \<and>
    (\<forall>i \<in> {1..N - 1}.
       map_of (remappings (composable_node_descriptions pc ! nat i)) ''/image_out'' =
         Some (''/image_out'' @ fmt_d (i - 1)) \<and>
       map_of (remappings (composable_node_descriptions pc ! nat (i + 1))) ''/image_in'' =
         Some (''/image_out'' @ fmt_d (i - 1))) \<and>
    map_of (remappings (composable_node_descriptions pc ! nat N)) ''/image_out'' =
      Some (''/image_out'' @ fmt_d (N - 1)) \<and>
    map_of (remappings (last (composable_node_descriptions pc))) ''/image_in'' =
      Some (''/image_out'' @ fmt_d (N - 1)) \<and>
    length (concat (map output_routes (composable_node_descriptions pc))) = nat (N + 2) \<and>
    distinct (concat (map output_routes (composable_node_descriptions pc))) \<and>
    (\<forall>a b. a + 1 < b \<and> b < length (composable_node_descriptions pc) \<longrightarrow>
       routes (composable_node_descriptions pc ! a)
         \<inter> routes (composable_node_descriptions pc ! b) = {})"
proof -
  let ?nodes = "pipeline_nodes N (cam2image_node wh)"
  let ?pc = "pipeline_container N machine ctx (cam2image_node wh)"
  let ?cc = "composite_container N machine ctx (cam2image_node wh)"
  have ls: "launch_setup N machine ctx = Inr [?pc, ?cc]"
    using assms(2) by (rule launch_setup_Some)
  have pc: "composable_node_descriptions ?pc = ?nodes"
    by (simp add: pipeline_container_def)
  have out: "map_of (remappings (?nodes ! nat j)) ''/image_out'' =
      Some (''/image_out'' @ fmt_d (j - 1))" if "1 \<le> j" "j \<le> N" for j
  proof (cases "j = 1")
    case True
    have "?nodes ! nat 1 = map_node N" by (simp add: pipeline_nodes_eq)
    with True show ?thesis by (simp add: map_node_def fmt_d_0)
  next
    case False
    with that have "1 \<le> j - 1" "j - 1 \<le> N - 1" by linarith+
    then have "?nodes ! nat (j - 1 + 1) = juliaset_node N (j - 1)" by (rule stage_nth)
    then show ?thesis by (simp add: juliaset_node_def)
  qed
  have inp: "map_of (remappings (?nodes ! nat (i + 1))) ''/image_in'' =
      Some (''/image_out'' @ fmt_d (i - 1))" if "1 \<le> i" "i \<le> N - 1" for i
  proof -
    from that have "?nodes ! nat (i + 1) = juliaset_node N i" by (rule stage_nth)
    then show ?thesis by (simp add: juliaset_node_def)
  qed
  have f1: "\<forall>i \<in> {1..N - 1}.
       map_of (remappings (?nodes ! nat i)) ''/image_out'' = Some (''/image_out'' @ fmt_d (i - 1)) \<and>
       map_of (remappings (?nodes ! nat (i + 1))) ''/image_in'' = Some (''/image_out'' @ fmt_d (i - 1))"
  proof (intro ballI conjI)
    fix i assume "i \<in> {1..N - 1}"
    then have i: "1 \<le> i" "i \<le> N - 1" "i \<le> N" by simp_all
    from i(1,3) show "map_of (remappings (?nodes ! nat i)) ''/image_out'' =
        Some (''/image_out'' @ fmt_d (i - 1))" by (rule out)
    from i(1,2) show "map_of (remappings (?nodes ! nat (i + 1))) ''/image_in'' =
        Some (''/image_out'' @ fmt_d (i - 1))" by (rule inp)
  qed
  have f2: "map_of (remappings (?nodes ! nat N)) ''/image_out'' =
      Some (''/image_out'' @ fmt_d (N - 1))"
    using assms(1) by (intro out) simp_all
  have f3: "map_of (remappings (last ?nodes)) ''/image_in'' = Some (''/image_out'' @ fmt_d (N - 1))"
    unfolding last_pipeline_nodes by (simp add: colorize_node_def)
  have f4: "length (concat (map output_routes ?nodes)) = nat (N + 2)"
    unfolding output_routes_chain using assms(1) by simp
  have f5: "distinct (concat (map output_routes ?nodes))"
    unfolding output_routes_chain by (rule output_routes_distinct)
  have f6: "\<forall>a b. a + 1 < b \<and> b < length ?nodes \<longrightarrow> routes (?nodes ! a) \<inter> routes (?nodes ! b) = {}"
  proof (intro allI impI)
    fix a b assume "a + 1 < b \<and> b < length ?nodes"
    then have "a + 1 < b" "b < length ?nodes" by simp_all
    with assms(1) show "routes (?nodes ! a) \<inter> routes (?nodes ! b) = {}"
      by (rule non_adjacent_disjoint)
  qed
  show ?thesis
    by (rule exI [where x = ?pc], rule exI [where x = ?cc], unfold pc, intro conjI)
      (fact ls f1 f2 f3 f4 f5 f6)+
qed

theorem pipeline_routes_chain_witness:
  "(1::int) \<le> MAX_ITERATION \<and>
   RESOLUTIONS (resolution (default_context\<lparr>config := ''pipeline''\<rparr>)) = Some (1920, 1080) \<and>
   (\<exists>pc cc. launch_setup MAX_ITERATION ''x86_64'' (default_context\<lparr>config := ''pipeline''\<rparr>)
        = Inr [pc, cc] \<and>
      map_of (remappings (composable_node_descriptions pc ! 1)) ''/image_out''
        = map_of (remappings (composable_node_descriptions pc ! 2)) ''/image_in'' \<and>
      map_of (remappings (composable_node_descriptions pc ! 2)) ''/image_in''
        = Some ''/image_out0'' \<and>
      map_of (remappings (composable_node_descriptions pc ! 50)) ''/image_out''
        = map_of (remappings (last (composable_node_descriptions pc))) ''/image_in'' \<and>
      map_of (remappings (last (composable_node_descriptions pc))) ''/image_in''
        = Some ''/image_out49'' \<and>
      distinct (concat (map output_routes (composable_node_descriptions pc))))"
proof -
  have n: "(1::int) \<le> MAX_ITERATION"
    by (simp add: MAX_ITERATION_def)
  have h: "RESOLUTIONS (resolution (default_context\<lparr>config := ''pipeline''\<rparr>))
             = Some (1920, 1080)"
    by (simp add: RESOLUTIONS_def default_context_def)
  have d: "fmt_d 49 = ''49''" "fmt_d 0 = ''0''"
    by (simp_all add: fmt_d_def dec_digits.simps digit_def)
  have m: "(1::int) \<in> {1..MAX_ITERATION - 1}" "nat MAX_ITERATION = 50" "MAX_ITERATION - 1 = 49"
    by (simp_all add: MAX_ITERATION_def)
  from pipeline_routes_chain [OF n h, of "''x86_64''"] obtain pc cc where
    r: "launch_setup MAX_ITERATION ''x86_64'' (default_context\<lparr>config := ''pipeline''\<rparr>)
          = Inr [pc, cc]"
    and a: "\<forall>i \<in> {1..MAX_ITERATION - 1}.
       map_of (remappings (composable_node_descriptions pc ! nat i)) ''/image_out'' =
         Some (''/image_out'' @ fmt_d (i - 1)) \<and>
       map_of (remappings (composable_node_descriptions pc ! nat (i + 1))) ''/image_in'' =
         Some (''/image_out'' @ fmt_d (i - 1))"
    and l1: "map_of (remappings (composable_node_descriptions pc ! nat MAX_ITERATION)) ''/image_out'' =
      Some (''/image_out'' @ fmt_d (MAX_ITERATION - 1))"
    and l2: "map_of (remappings (last (composable_node_descriptions pc))) ''/image_in'' =
      Some (''/image_out'' @ fmt_d (MAX_ITERATION - 1))"
    and ds: "distinct (concat (map output_routes (composable_node_descriptions pc)))"
    by (elim exE conjE)
  from a m(1) have a1:
    "map_of (remappings (composable_node_descriptions pc ! nat 1)) ''/image_out'' =
         Some (''/image_out'' @ fmt_d (1 - 1)) \<and>
     map_of (remappings (composable_node_descriptions pc ! nat (1 + 1))) ''/image_in'' =
         Some (''/image_out'' @ fmt_d (1 - 1))"
    by (rule bspec)
  have g1: "map_of (remappings (composable_node_descriptions pc ! 1)) ''/image_out''
        = map_of (remappings (composable_node_descriptions pc ! 2)) ''/image_in''"
    using a1 by simp
  have g2: "map_of (remappings (composable_node_descriptions pc ! 2)) ''/image_in''
        = Some ''/image_out0''"
    using a1 by (simp add: d)
  have g4: "map_of (remappings (last (composable_node_descriptions pc))) ''/image_in''
        = Some ''/image_out49''"
    using l2 unfolding m d by simp
  have g3: "map_of (remappings (composable_node_descriptions pc ! 50)) ''/image_out''
        = map_of (remappings (last (composable_node_descriptions pc))) ''/image_in''"
    using l1 l2 unfolding m by simp
  show ?thesis
    by (intro conjI exI [where x = cc] exI [where x = pc]) (fact n h r g1 g2 g3 g4 ds)+
qed

end
